theory Spec2Isabelle
  imports Complex_Main "HOL-Library.Word" "HOL-Library.Sublist"
begin

section \<open>Strings\<close>

text \<open>
  A JavaScript string is a sequence of UTF-16 code units. Literals are written through
  \<open>str\<close>, which reads an ASCII literal as its code units.
\<close>

type_synonym code_unit = "16 word"
type_synonym jsstring = "code_unit list"

definition cu :: "char \<Rightarrow> code_unit" where
  "cu c = of_nat (of_char c)"

definition str :: "string \<Rightarrow> jsstring" where
  "str s = map cu s"

text \<open>Line terminators of the language: LF, CR, LS, PS. The regular expression dot excludes them.\<close>

definition isLineTerminator :: "code_unit \<Rightarrow> bool" where
  "isLineTerminator c \<longleftrightarrow> c = 0x0A \<or> c = 0x0D \<or> c = 0x2028 \<or> c = 0x2029"

text \<open>White space of the language: TAB, VT, FF, the byte order mark and the space separators.\<close>

definition isWhiteSpace :: "code_unit \<Rightarrow> bool" where
  "isWhiteSpace c \<longleftrightarrow>
     c = 0x09 \<or> c = 0x0B \<or> c = 0x0C \<or> c = 0x20 \<or> c = 0xA0 \<or> c = 0x1680 \<or>
     (0x2000 \<le> c \<and> c \<le> 0x200A) \<or> c = 0x202F \<or> c = 0x205F \<or> c = 0x3000 \<or> c = 0xFEFF"

definition isTrimmable :: "code_unit \<Rightarrow> bool" where
  "isTrimmable c \<longleftrightarrow> isWhiteSpace c \<or> isLineTerminator c"

text \<open>\<open>String.prototype.trim\<close>: strips white space and line terminators from both ends.\<close>

definition trim :: "jsstring \<Rightarrow> jsstring" where
  "trim s = rev (dropWhile isTrimmable (rev (dropWhile isTrimmable s)))"

text \<open>
  \<open>String.prototype.toLowerCase\<close> on the Basic Latin and Latin-1 blocks (A-Z, and
  U+00C0..U+00DE without the multiplication sign); code units of other blocks are kept as
  they are. No theorem below depends on which letters are folded.
\<close>

definition lowerUnit :: "code_unit \<Rightarrow> code_unit" where
  "lowerUnit c =
     (if (0x41 \<le> c \<and> c \<le> 0x5A) \<or> (0xC0 \<le> c \<and> c \<le> 0xDE \<and> c \<noteq> 0xD7) then c + 0x20 else c)"

definition toLowerCase :: "jsstring \<Rightarrow> jsstring" where
  "toLowerCase s = map lowerUnit s"

text \<open>\<open>String.prototype.includes\<close>: the argument occurs as a contiguous run.\<close>

fun includes_str :: "jsstring \<Rightarrow> jsstring \<Rightarrow> bool" where
  "includes_str [] sub = (sub = [])"
| "includes_str (c # cs) sub = (prefix sub (c # cs) \<or> includes_str cs sub)"

section \<open>Regular expressions of the normalizer\<close>

text \<open>
  A matcher is run at the front of the remaining input and yields the number of code
  units the match consumes. Every combinator takes the matcher of the rest of the
  pattern, so that backtracking into a star follows the order of the engine: a lazy star
  tries the rest first, a greedy star tries to consume first.

  With the \<open>i\<close> flag two code units match when their canonical forms agree. All pattern
  characters here are ASCII, and outside the \<open>u\<close> mode no code unit above 127 is
  canonicalised to an ASCII one, so folding a-z onto A-Z is all the patterns can observe.
\<close>

type_synonym matcher = "jsstring \<Rightarrow> nat option"

definition canonicalize :: "code_unit \<Rightarrow> code_unit" where
  "canonicalize c = (if 0x61 \<le> c \<and> c \<le> 0x7A then c - 0x20 else c)"

definition unitMatches :: "bool \<Rightarrow> code_unit \<Rightarrow> code_unit \<Rightarrow> bool" where
  "unitMatches ignoreCase p c = (if ignoreCase then canonicalize c = canonicalize p else c = p)"

definition accept :: matcher where
  "accept s = Some 0"

fun lit :: "bool \<Rightarrow> jsstring \<Rightarrow> matcher \<Rightarrow> matcher" where
  "lit ic [] k s = k s"
| "lit ic (p # ps) k [] = None"
| "lit ic (p # ps) k (c # cs) =
     (if unitMatches ic p c then map_option Suc (lit ic ps k cs) else None)"

fun dotStarLazy :: "matcher \<Rightarrow> matcher" where
  "dotStarLazy k [] = k []"
| "dotStarLazy k (c # cs) =
     (case k (c # cs) of
        Some n \<Rightarrow> Some n
      | None \<Rightarrow> if isLineTerminator c then None else map_option Suc (dotStarLazy k cs))"

fun dotStarGreedy :: "matcher \<Rightarrow> matcher" where
  "dotStarGreedy k [] = k []"
| "dotStarGreedy k (c # cs) =
     (case (if isLineTerminator c then None else dotStarGreedy k cs) of
        Some n \<Rightarrow> Some (Suc n)
      | None \<Rightarrow> k (c # cs))"

text \<open>
  \<open>s.replace(re, "")\<close> for a global pattern: scan from the left, delete each match and
  resume behind it. The counter is the number of code units of the current match still to
  be deleted. (An empty match deletes nothing and the scan moves on by one unit.)
\<close>

fun removeMatches :: "matcher \<Rightarrow> nat \<Rightarrow> jsstring \<Rightarrow> jsstring" where
  "removeMatches m pending [] = []"
| "removeMatches m (Suc pending) (c # cs) = removeMatches m pending cs"
| "removeMatches m 0 (c # cs) =
     (case m (c # cs) of
        Some (Suc n) \<Rightarrow> removeMatches m n cs
      | _ \<Rightarrow> c # removeMatches m 0 cs)"

definition reFeat :: matcher where          \<comment> \<open>\<^verbatim>\<open>/\(feat\..*?\)/gi\<close>\<close>
  "reFeat = lit True (str ''(feat.'') (dotStarLazy (lit True (str '')'') accept))"

definition reWith :: matcher where          \<comment> \<open>\<^verbatim>\<open>/\(with.*?\)/gi\<close>\<close>
  "reWith = lit True (str ''(with'') (dotStarLazy (lit True (str '')'') accept))"

definition reBracket :: matcher where       \<comment> \<open>\<^verbatim>\<open>/\[.*?\]/g\<close>\<close>
  "reBracket = lit False (str ''['') (dotStarLazy (lit False (str '']'') accept))"

definition reDashRemaster :: matcher where  \<comment> \<open>\<^verbatim>\<open>/-.*remaster.*/gi\<close>\<close>
  "reDashRemaster =
     lit True (str ''-'') (dotStarGreedy (lit True (str ''remaster'') (dotStarGreedy accept)))"

definition reRemastered :: matcher where    \<comment> \<open>\<^verbatim>\<open>/remastered/gi\<close>\<close>
  "reRemastered = lit True (str ''remastered'') accept"

definition reDashSingle :: matcher where    \<comment> \<open>\<^verbatim>\<open>/-.*single/gi\<close>\<close>
  "reDashSingle = lit True (str ''-'') (dotStarGreedy (lit True (str ''single'') accept))"

definition reVersion :: matcher where       \<comment> \<open>\<^verbatim>\<open>/\(.*?version\)/gi\<close>\<close>
  "reVersion = lit True (str ''('') (dotStarLazy (lit True (str ''version)'') accept))"

section \<open>String normalizer\<close>

definition stripTags :: "jsstring \<Rightarrow> jsstring" where
  "stripTags s =
     removeMatches reVersion 0 (removeMatches reDashSingle 0 (removeMatches reRemastered 0
       (removeMatches reDashRemaster 0 (removeMatches reBracket 0 (removeMatches reWith 0
         (removeMatches reFeat 0 s))))))"

text \<open>\<open>clean.split(sep)[0].trim()\<close> when \<open>clean\<close> includes the one-unit separator.\<close>

definition firstPart :: "code_unit \<Rightarrow> jsstring \<Rightarrow> jsstring" where
  "firstPart sep clean = (if sep \<in> set clean then trim (takeWhile (\<lambda>c. c \<noteq> sep) clean) else clean)"

definition cleanString :: "jsstring \<Rightarrow> jsstring" where
  "cleanString s = firstPart (cu CHR '','') (firstPart (cu CHR ''&'') (trim (stripTags s)))"


section \<open>URI component encoding\<close>

text \<open>
  \<open>encodeURIComponent\<close>: the unreserved units are copied, every other code point is
  written as the percent-escaped octets of its UTF-8 form. An unpaired surrogate has no
  UTF-8 form: the function raises \<open>URIError\<close>, which is the value \<open>None\<close> here.
\<close>

definition uriUnreserved :: "code_unit \<Rightarrow> bool" where
  "uriUnreserved c \<longleftrightarrow>
     (0x41 \<le> c \<and> c \<le> 0x5A) \<or> (0x61 \<le> c \<and> c \<le> 0x7A) \<or> (0x30 \<le> c \<and> c \<le> 0x39) \<or>
     c \<in> set (str ''-_.!~*()'') \<or> c = 0x27"

definition isHighSurrogate :: "code_unit \<Rightarrow> bool" where
  "isHighSurrogate c \<longleftrightarrow> 0xD800 \<le> c \<and> c \<le> 0xDBFF"

definition isLowSurrogate :: "code_unit \<Rightarrow> bool" where
  "isLowSurrogate c \<longleftrightarrow> 0xDC00 \<le> c \<and> c \<le> 0xDFFF"

definition utf8 :: "nat \<Rightarrow> nat list" where
  "utf8 cp =
     (if cp < 0x80 then [cp]
      else if cp < 0x800 then [0xC0 + cp div 0x40, 0x80 + cp mod 0x40]
      else if cp < 0x10000 then
        [0xE0 + cp div 0x1000, 0x80 + (cp div 0x40) mod 0x40, 0x80 + cp mod 0x40]
      else
        [0xF0 + cp div 0x40000, 0x80 + (cp div 0x1000) mod 0x40,
         0x80 + (cp div 0x40) mod 0x40, 0x80 + cp mod 0x40])"

definition hexDigit :: "nat \<Rightarrow> code_unit" where
  "hexDigit n = (if n < 10 then of_nat (0x30 + n) else of_nat (0x37 + n))"

definition percentEscape :: "nat \<Rightarrow> jsstring" where
  "percentEscape octet = [0x25, hexDigit (octet div 16), hexDigit (octet mod 16)]"

definition escapeCodePoint :: "nat \<Rightarrow> jsstring" where
  "escapeCodePoint cp = concat (map percentEscape (utf8 cp))"

fun encodeURIComponent :: "jsstring \<Rightarrow> jsstring option" where
  "encodeURIComponent [] = Some []"
| "encodeURIComponent [c] =
     (if uriUnreserved c then Some [c]
      else if isLowSurrogate c \<or> isHighSurrogate c then None
      else Some (escapeCodePoint (unat c)))"
| "encodeURIComponent (c # d # ds) =
     (if uriUnreserved c then map_option ((#) c) (encodeURIComponent (d # ds))
      else if isLowSurrogate c then None
      else if isHighSurrogate c then
        (if isLowSurrogate d then
           map_option ((@) (escapeCodePoint (0x10000 + (unat c - 0xD800) * 0x400 + (unat d - 0xDC00))))
             (encodeURIComponent ds)
         else None)
      else map_option ((@) (escapeCodePoint (unat c))) (encodeURIComponent (d # ds)))"

section \<open>Catalog search responses\<close>

text \<open>
  One entry of the \<open>results\<close> array of a catalog search response. A field is \<open>None\<close>
  when the property is absent or \<open>null\<close>. (The preview address carries the prefix
  \<open>catalog\<close> only to keep it apart from the field of the same name in \<open>track\<close>.)
\<close>

record catalogEntry =
  trackId :: "int option"
  catalogPreviewUrl :: "jsstring option"
  artworkUrl100 :: "jsstring option"
  trackViewUrl :: "jsstring option"
  trackName :: "jsstring option"
  artistName :: "jsstring option"

text \<open>
  The object a search response parses to. \<open>resultCount\<close> is \<open>None\<close> when the property
  is absent; an absent \<open>results\<close> array is the empty list (reading its first element
  raises \<open>TypeError\<close> in both cases, inside the same handlers).
\<close>

record searchData =
  resultCount :: "int option"
  results :: "catalogEntry list"

text \<open>
  The values \<open>JSON.parse\<close> can produce, as far as the resolver tells them apart:
  \<open>null\<close>, another falsy value (\<open>0\<close>, \<open>""\<close>, \<open>false\<close>), or a truthy value read
  through its properties \<open>resultCount\<close> and \<open>results\<close>.
\<close>

datatype json = JNull | JFalsy | JObject searchData

text \<open>What a call resolves to: \<open>undefined\<close> or a parsed value.\<close>

datatype fetched = Undefined | Value json

datatype 'a completion = Throws | Returns 'a

section \<open>Resilient fetch\<close>

text \<open>
  The network is an oracle: the outcome of the \<open>n\<close>-th call of \<open>fetch\<close> (counting all
  calls made so far) for the requested address. \<open>fetch\<close> either rejects or resolves to a
  response with a status and a body; reading the body may reject too.
\<close>

record httpResponse =
  status :: nat
  body :: "jsstring option"

datatype fetchAttempt = NetworkError | Response httpResponse

type_synonym network = "nat \<Rightarrow> jsstring \<Rightarrow> fetchAttempt"

text \<open>\<open>JSON.parse\<close> is a parameter: \<open>None\<close> stands for a \<open>SyntaxError\<close>.\<close>

type_synonym jsonParser = "jsstring \<Rightarrow> json option"

text \<open>
  The observable effects: the addresses passed to \<open>fetch\<close>, the addresses
  \<open>fetchWithRetry\<close> was called with, and the back-off waits in milliseconds.
\<close>

record world =
  requests :: "jsstring list"
  queries :: "jsstring list"
  sleeps :: "int list"

definition responseOk :: "httpResponse \<Rightarrow> bool" where
  "responseOk r \<longleftrightarrow> 200 \<le> status r \<and> status r \<le> 299"

definition emptyResult :: json where
  "emptyResult = JObject \<lparr>resultCount = Some 0, results = []\<rparr>"

text \<open>The body of the \<open>try\<close> block of one attempt, after \<open>fetch\<close> has been awaited.\<close>

definition attempt :: "jsonParser \<Rightarrow> fetchAttempt \<Rightarrow> json completion" where
  "attempt parse a =
     (case a of
        NetworkError \<Rightarrow> Throws
      | Response r \<Rightarrow>
          if status r = 403 \<or> status r = 429 then Returns JNull
          else if \<not> responseOk r then Throws
          else (case body r of
                  None \<Rightarrow> Throws
                | Some text \<Rightarrow>
                    if text = [] \<or> trim text = [] then Returns emptyResult
                    else (case parse text of None \<Rightarrow> Throws | Some v \<Rightarrow> Returns v)))"

function fetchLoop ::
  "network \<Rightarrow> jsonParser \<Rightarrow> jsstring \<Rightarrow> int \<Rightarrow> int \<Rightarrow> int \<Rightarrow> world \<Rightarrow> fetched completion \<times> world"
where
  "fetchLoop net parse url retries delay i w =
     (if i \<le> retries then
        (let w1 = w\<lparr>requests := requests w @ [url]\<rparr> in
         case attempt parse (net (length (requests w)) url) of
           Returns v \<Rightarrow> (Returns (Value v), w1)
         | Throws \<Rightarrow>
             if i = retries then (Throws, w1)
             else fetchLoop net parse url retries delay (i + 1)
                    (w1\<lparr>sleeps := sleeps w1 @ [delay * (i + 1)]\<rparr>))
      else (Returns Undefined, w))"
  by pat_completeness auto
termination
  by (relation "measure (\<lambda>(net, parse, url, retries, delay, i, w). nat (retries + 1 - i))") auto

definition fetchWithRetry ::
  "network \<Rightarrow> jsonParser \<Rightarrow> jsstring \<Rightarrow> int \<Rightarrow> int \<Rightarrow> world \<Rightarrow> fetched completion \<times> world"
where
  "fetchWithRetry net parse url retries delay w =
     fetchLoop net parse url retries delay 0 (w\<lparr>queries := queries w @ [url]\<rparr>)"


section \<open>Track resolver\<close>

record songSuggestion =
  title :: jsstring
  artist :: jsstring
  moodDescription :: jsstring

text \<open>
  \<open>Track\<close> extends \<open>SongSuggestion\<close>. The field \<open>id\<close> is written \<open>id'\<close>. A preview or
  external address is \<open>None\<close> when it is \<open>null\<close> or \<open>undefined\<close>.
\<close>

record track = songSuggestion +
  id' :: int
  previewUrl :: "jsstring option"
  coverUrl :: jsstring
  externalUrl :: "jsstring option"
  isPlayable :: bool

definition stockCover :: jsstring where
  "stockCover = str ''https://picsum.photos/600/600?blur=2''"

definition placeholderCover :: jsstring where
  "placeholderCover = str ''https://picsum.photos/600/600?blur=5''"

definition fallbackTrack :: "songSuggestion \<Rightarrow> int \<Rightarrow> track" where
  "fallbackTrack suggestion index =
     \<lparr>title = title suggestion, artist = artist suggestion,
      moodDescription = moodDescription suggestion,
      id' = index, previewUrl = None, coverUrl = stockCover, externalUrl = Some [],
      isPlayable = False\<rparr>"

text \<open>The truthiness of an optional string: present and not empty.\<close>

definition truthyStr :: "jsstring option \<Rightarrow> bool" where
  "truthyStr v \<longleftrightarrow> (case v of None \<Rightarrow> False | Some x \<Rightarrow> x \<noteq> [])"

text \<open>\<open>s.replace(pat, rep)\<close> for a string pattern: the first occurrence only.\<close>

fun replaceFirst :: "jsstring \<Rightarrow> jsstring \<Rightarrow> jsstring \<Rightarrow> jsstring" where
  "replaceFirst pat rep [] = (if pat = [] then rep else [])"
| "replaceFirst pat rep (c # cs) =
     (if prefix pat (c # cs) then rep @ drop (length pat) (c # cs)
      else c # replaceFirst pat rep cs)"

definition highResCover :: "catalogEntry \<Rightarrow> jsstring option" where
  "highResCover t =
     (case artworkUrl100 t of
        None \<Rightarrow> None
      | Some a \<Rightarrow> if a = [] then None else Some (replaceFirst (str ''100x100bb'') (str ''600x600bb'') a))"

text \<open>The object literal of the success branch, built from the first catalog entry.\<close>

definition resolvedTrack :: "songSuggestion \<Rightarrow> int \<Rightarrow> catalogEntry \<Rightarrow> track" where
  "resolvedTrack suggestion index t =
     \<lparr>title = (if truthyStr (trackName t) then the (trackName t) else title suggestion),
      artist = (if truthyStr (artistName t) then the (artistName t) else artist suggestion),
      moodDescription = moodDescription suggestion,
      id' = (case trackId t of None \<Rightarrow> index | Some n \<Rightarrow> if n = 0 then index else n),
      previewUrl = catalogPreviewUrl t,
      coverUrl = (if truthyStr (highResCover t) then the (highResCover t) else stockCover),
      externalUrl = trackViewUrl t,
      isPlayable = truthyStr (catalogPreviewUrl t)\<rparr>"

definition searchUrl :: "jsstring \<Rightarrow> string \<Rightarrow> jsstring" where
  "searchUrl query limit =
     str ''https://itunes.apple.com/search?term='' @ query @
     str ''&media=music&entity=song&limit='' @ str limit @ str ''&country=US''"

text \<open>\<open>!data || data.resultCount === 0\<close>\<close>

definition noResults :: "fetched \<Rightarrow> bool" where
  "noResults data \<longleftrightarrow>
     (case data of
        Value (JObject d) \<Rightarrow> resultCount d = Some 0
      | _ \<Rightarrow> True)"

text \<open>\<open>data && data.resultCount > 0\<close>\<close>

definition hasResults :: "fetched \<Rightarrow> bool" where
  "hasResults data \<longleftrightarrow>
     (case data of
        Value (JObject d) \<Rightarrow> (case resultCount d of None \<Rightarrow> False | Some n \<Rightarrow> n > 0)
      | _ \<Rightarrow> False)"

definition resultsOf :: "fetched \<Rightarrow> catalogEntry list" where
  "resultsOf data = (case data of Value (JObject d) \<Rightarrow> results d | _ \<Rightarrow> [])"

text \<open>The predicate handed to \<open>find\<close> in the secondary search.\<close>

definition artistMatches :: "jsstring \<Rightarrow> catalogEntry \<Rightarrow> bool" where
  "artistMatches cleanArtist r \<longleftrightarrow>
     truthyStr (artistName r) \<and> cleanArtist \<noteq> [] \<and>
     includes_str (toLowerCase (the (artistName r))) (toLowerCase cleanArtist)"

text \<open>
  The manual filter: when the secondary data has results and one of them passes the
  predicate, the data is narrowed to that entry; otherwise the data is left as it is.
\<close>

definition narrowToArtist :: "jsstring \<Rightarrow> fetched \<Rightarrow> fetched" where
  "narrowToArtist cleanArtist data =
     (if hasResults data then
        (case find (artistMatches cleanArtist) (resultsOf data) of
           Some match \<Rightarrow> Value (JObject \<lparr>resultCount = Some 1, results = [match]\<rparr>)
         | None \<Rightarrow> data)
      else data)"

text \<open>
  The tail of the outer \<open>try\<close> block: the track built from the first result, or the
  fallback. With a positive count and no first result, reading a property of
  \<open>undefined\<close> raises \<open>TypeError\<close>, which the outer handler turns into the fallback.
\<close>

definition buildTrack :: "songSuggestion \<Rightarrow> int \<Rightarrow> fetched \<Rightarrow> track" where
  "buildTrack suggestion index data =
     (if hasResults data then
        (case resultsOf data of
           [] \<Rightarrow> fallbackTrack suggestion index
         | t # _ \<Rightarrow> resolvedTrack suggestion index t)
      else fallbackTrack suggestion index)"

text \<open>
  \<open>fetchTrackDetails\<close>. The first \<open>encodeURIComponent\<close> stands before the \<open>try\<close> block,
  so its \<open>URIError\<close> leaves the function; the second one stands inside the outer block.
  A failure of the secondary search is caught by the inner handler, and the function
  goes on with the data of the primary search.
\<close>

definition fetchTrackDetails ::
  "network \<Rightarrow> jsonParser \<Rightarrow> songSuggestion \<Rightarrow> int \<Rightarrow> world \<Rightarrow> track completion \<times> world"
where
  "fetchTrackDetails net parse suggestion index w =
     (let cleanTitle = cleanString (title suggestion);
          cleanArtist = cleanString (artist suggestion);
          fallback = fallbackTrack suggestion index
      in case encodeURIComponent (cleanTitle @ str '' '' @ cleanArtist) of
           None \<Rightarrow> (Throws, w)
         | Some query \<Rightarrow>
             (case fetchWithRetry net parse (searchUrl query ''1'') 2 500 w of
                (Throws, w1) \<Rightarrow> (Returns fallback, w1)
              | (Returns data, w1) \<Rightarrow>
                  if data = Value JNull then (Returns fallback, w1)
                  else if noResults data then
                    (case encodeURIComponent cleanTitle of
                       None \<Rightarrow> (Returns fallback, w1)
                     | Some query2 \<Rightarrow>
                         (case fetchWithRetry net parse (searchUrl query2 ''5'') 2 500 w1 of
                            (Throws, w2) \<Rightarrow> (Returns (buildTrack suggestion index data), w2)
                          | (Returns data2, w2) \<Rightarrow>
                              if data2 = Value JNull then (Returns fallback, w2)
                              else (Returns (buildTrack suggestion index
                                               (narrowToArtist cleanArtist data2)), w2)))
                  else (Returns (buildTrack suggestion index data), w1)))"


section \<open>AI suggestion service\<close>

text \<open>
  A follow-up request is recorded by what goes into its prompt: the mood, the liked
  song or the skipped titles, and the exclusion list (the last 50 existing titles).
\<close>

datatype aiRequest =
    RefineRequest jsstring jsstring jsstring "jsstring list"
  | PivotRequest jsstring "jsstring list" "jsstring list"

text \<open>
  The service either rejects the call or answers with a response whose \<open>text\<close> may be
  missing. Parsing the text into suggestions is a parameter (\<open>None\<close>: \<open>SyntaxError\<close>).
\<close>

datatype aiReply = AiRejected | AiResponse "jsstring option"

type_synonym songsParser = "jsstring \<Rightarrow> songSuggestion list option"

text \<open>\<open>getClient\<close> raises unless the key is set and not empty.\<close>

definition hasApiKey :: "jsstring option \<Rightarrow> bool" where
  "hasApiKey apiKey \<longleftrightarrow> truthyStr apiKey"

text \<open>\<open>existingTitles.slice(-50)\<close>\<close>

definition lastFifty :: "'a list \<Rightarrow> 'a list" where
  "lastFifty xs = drop (length xs - 50) xs"

text \<open>
  \<open>getRefinedSongs\<close> and \<open>getPivotSongs\<close> up to the awaited call: the request sent, or
  \<open>None\<close> when \<open>getClient\<close> raises (that call stands before the \<open>try\<close> block).
\<close>

definition getRefinedSongs_request ::
  "jsstring option \<Rightarrow> jsstring \<Rightarrow> songSuggestion \<Rightarrow> jsstring list \<Rightarrow> aiRequest option" where
  "getRefinedSongs_request apiKey currentMood likedSong existingTitles =
     (if hasApiKey apiKey
      then Some (RefineRequest currentMood (title likedSong) (artist likedSong) (lastFifty existingTitles))
      else None)"

definition getPivotSongs_request ::
  "jsstring option \<Rightarrow> jsstring \<Rightarrow> jsstring list \<Rightarrow> jsstring list \<Rightarrow> aiRequest option" where
  "getPivotSongs_request apiKey currentMood skippedSongs existingTitles =
     (if hasApiKey apiKey
      then Some (PivotRequest currentMood skippedSongs (lastFifty existingTitles))
      else None)"

text \<open>
  Both functions after the awaited call: a rejection and a \<open>SyntaxError\<close> are caught and
  give the empty list, as does a response without text.
\<close>

definition songsOfReply :: "songsParser \<Rightarrow> aiReply \<Rightarrow> songSuggestion list" where
  "songsOfReply parseSongs reply =
     (case reply of
        AiRejected \<Rightarrow> []
      | AiResponse txt \<Rightarrow>
          if truthyStr txt
          then (case parseSongs (the txt) of None \<Rightarrow> [] | Some songs \<Rightarrow> songs)
          else [])"

section \<open>Playlist state\<close>

text \<open>
  The user-visible messages: \<open>"Sintonizando algoritmo con tu vibra..."\<close>,
  \<open>"Probando otra vibra..."\<close> and \<open>"Agregadas n nuevas sugerencias."\<close>.
\<close>

datatype notice = NoticeTuning | NoticePivot | NoticeAdded nat

text \<open>
  The state of the component: the React state variables the handlers use, the lock
  \<open>isGeneratingRef\<close>, and two logs of effects: the AI requests sent and the background
  passes started (the arguments of each \<open>fetchRemainingTracks\<close> call).
\<close>

record app =
  playlist :: "track list"
  currentIndex :: nat
  consecutiveSkips :: nat
  moodSummary :: jsstring
  notification :: "notice option"
  isGenerating :: bool
  aiCalls :: "aiRequest list"
  backfills :: "(songSuggestion list \<times> nat \<times> nat) list"

definition placeholderTrack :: "songSuggestion \<Rightarrow> int \<Rightarrow> track" where
  "placeholderTrack song ident =
     \<lparr>title = title song, artist = artist song, moodDescription = moodDescription song,
      id' = ident, previewUrl = None, coverUrl = placeholderCover, externalUrl = Some [],
      isPlayable = False\<rparr>"

text \<open>The callback of \<open>playlist.some\<close> in the duplicate filter.\<close>

definition sameSong :: "songSuggestion \<Rightarrow> track \<Rightarrow> bool" where
  "sameSong suggestion existingTrack \<longleftrightarrow>
     trim (toLowerCase (title existingTrack)) = trim (toLowerCase (title suggestion)) \<or>
     (includes_str (toLowerCase (title existingTrack)) (toLowerCase (title suggestion)) \<and>
      includes_str (toLowerCase (artist existingTrack)) (toLowerCase (artist suggestion)))"

definition isDuplicate :: "track list \<Rightarrow> songSuggestion \<Rightarrow> bool" where
  "isDuplicate existing suggestion \<longleftrightarrow> list_ex (sameSong suggestion) existing"

text \<open>
  \<open>addSongsToPlaylist\<close>. A handler closes over the playlist of the render it was created
  in: \<open>captured\<close> is that playlist, against which duplicates and \<open>currentLength\<close> are
  computed, while the update of \<open>setPlaylist\<close> appends to the playlist of the state it is
  applied to. \<open>clock idx\<close> is the value of \<open>Date.now()\<close> read for the element \<open>idx\<close>.
\<close>

definition addSongsToPlaylist ::
  "(nat \<Rightarrow> int) \<Rightarrow> track list \<Rightarrow> songSuggestion list \<Rightarrow> app \<Rightarrow> app" where
  "addSongsToPlaylist clock captured newSongs st =
     (let uniqueSuggestions = filter (\<lambda>suggestion. \<not> isDuplicate captured suggestion) newSongs
      in if length uniqueSuggestions > 0 then
           (let currentLength = length captured;
                newPlaceholders =
                  map (\<lambda>(idx, song). placeholderTrack song (int (currentLength + idx) + clock idx))
                    (enumerate 0 uniqueSuggestions)
            in st\<lparr>playlist := playlist st @ newPlaceholders,
                  notification := Some (NoticeAdded (length uniqueSuggestions)),
                  backfills := backfills st @ [(uniqueSuggestions, 0, currentLength)]\<rparr>)
         else st)"

section \<open>Engagement policy\<close>

text \<open>
  A handler that awaits the AI service runs in two parts. The first part runs when the
  event arrives, up to the awaited call; it returns the new state and, when a request was
  sent, the suspended rest of the handler: the playlist the handler closes over, and
  whether the cursor is still to be advanced (the tail of \<open>handleNext\<close>). The second part,
  \<open>resume\<close>, runs when the service answers, on the state of that moment.
\<close>

datatype flow = Flow "track list" bool

text \<open>
  \<open>setCurrentIndex((prev) => (prev + 1) % playlist.length)\<close>. \<open>handleNext\<close> gets here
  only with a track at the cursor, hence with a playlist that is not empty, so the
  remainder by zero (\<open>NaN\<close> in the source) does not arise.
\<close>

definition advanceCursor :: "track list \<Rightarrow> app \<Rightarrow> app" where
  "advanceCursor captured st = st\<lparr>currentIndex := (currentIndex st + 1) mod length captured\<rparr>"

text \<open>\<open>playlist.slice(Math.max(0, currentIndex - 2), currentIndex + 1)\<close>\<close>

definition skippedContext :: "app \<Rightarrow> jsstring list" where
  "skippedContext view = map title (drop (currentIndex view - 2) (take (currentIndex view + 1) (playlist view)))"

definition handlePivot :: "jsstring option \<Rightarrow> app \<Rightarrow> jsstring \<Rightarrow> app \<Rightarrow> app \<times> flow option" where
  "handlePivot apiKey view lastSkippedTitle st =
     (if isGenerating st then (st, None)
      else
        (let st1 = st\<lparr>isGenerating := True, notification := Some NoticePivot\<rparr>
         in case getPivotSongs_request apiKey (moodSummary view) (skippedContext view)
                   (map title (playlist view)) of
              Some request \<Rightarrow>
                (st1\<lparr>aiCalls := aiCalls st1 @ [request]\<rparr>, Some (Flow (playlist view) False))
            | None \<Rightarrow> (st1\<lparr>isGenerating := False\<rparr>, None)))"

definition handleLike :: "jsstring option \<Rightarrow> app \<Rightarrow> track \<Rightarrow> app \<Rightarrow> app \<times> flow option" where
  "handleLike apiKey view liked st =
     (if isGenerating st then (st, None)
      else
        (let st1 = st\<lparr>isGenerating := True, notification := Some NoticeTuning,
                      consecutiveSkips := 0\<rparr>
         in case getRefinedSongs_request apiKey (moodSummary view) (songSuggestion.truncate liked)
                   (map title (playlist view)) of
              Some request \<Rightarrow>
                (st1\<lparr>aiCalls := aiCalls st1 @ [request]\<rparr>, Some (Flow (playlist view) False))
            | None \<Rightarrow> (st1\<lparr>isGenerating := False\<rparr>, None)))"

text \<open>
  \<open>handleNext\<close>. Without a track at the cursor, reading \<open>currentTrack.isPlayable\<close> raises
  \<open>TypeError\<close> before any update: the value \<open>None\<close>. When the pivot is awaited, the cursor
  moves only after it.
\<close>

definition handleNext :: "jsstring option \<Rightarrow> app \<Rightarrow> real \<Rightarrow> app \<Rightarrow> (app \<times> flow option) option" where
  "handleNext apiKey view duration st =
     (if currentIndex view < length (playlist view) then
        (let currentTrack = playlist view ! currentIndex view
         in if isPlayable currentTrack then
              (if duration < 8 then
                 (let newSkips = consecutiveSkips view + 1;
                      st1 = st\<lparr>consecutiveSkips := newSkips\<rparr>
                  in if newSkips \<ge> 3 \<and> \<not> isGenerating st1 then
                       (case handlePivot apiKey view (title currentTrack)
                               (st1\<lparr>consecutiveSkips := 0\<rparr>) of
                          (st2, Some (Flow captured _)) \<Rightarrow> Some (st2, Some (Flow captured True))
                        | (st2, None) \<Rightarrow> Some (advanceCursor (playlist view) st2, None))
                     else Some (advanceCursor (playlist view) st1, None))
               else Some (advanceCursor (playlist view) (st\<lparr>consecutiveSkips := 0\<rparr>), None))
            else Some (advanceCursor (playlist view) st, None))
      else None)"

text \<open>
  The rest of a suspended handler: the reply is turned into suggestions, the batch is
  appended, the lock is released in the \<open>finally\<close> block, and \<open>handleNext\<close> moves the
  cursor.
\<close>

definition resume :: "songsParser \<Rightarrow> (nat \<Rightarrow> int) \<Rightarrow> flow \<Rightarrow> aiReply \<Rightarrow> app \<Rightarrow> app" where
  "resume parseSongs clock fl reply st =
     (case fl of
        Flow captured advance \<Rightarrow>
          (let st1 = addSongsToPlaylist clock captured (songsOfReply parseSongs reply) st;
               st2 = st1\<lparr>isGenerating := False\<rparr>
           in if advance then advanceCursor captured st2 else st2))"

text \<open>An event handled on the state it was rendered from.\<close>

definition trackAdvanced :: "jsstring option \<Rightarrow> real \<Rightarrow> app \<Rightarrow> (app \<times> flow option) option" where
  "trackAdvanced apiKey duration st = handleNext apiKey st duration st"

definition trackLiked :: "jsstring option \<Rightarrow> track \<Rightarrow> app \<Rightarrow> app \<times> flow option" where
  "trackLiked apiKey liked st = handleLike apiKey st liked st"

section \<open>Sequences of playback events\<close>

text \<open>
  Several \<open>TrackAdvanced\<close> events in a row, each handled on the state the one before
  left. The run is defined as long as no event starts an expansion flow (and no event
  meets an empty position): a started flow would first need the reply of the service.
\<close>

fun trackAdvancedAll :: "jsstring option \<Rightarrow> real list \<Rightarrow> app \<Rightarrow> app option" where
  "trackAdvancedAll apiKey [] st = Some st"
| "trackAdvancedAll apiKey (d # ds) st =
     (case trackAdvanced apiKey d st of
        Some (st', None) \<Rightarrow> trackAdvancedAll apiKey ds st'
      | _ \<Rightarrow> None)"

section \<open>Example inputs\<close>

text \<open>Concrete networks, catalog entries and states for the closed examples below.\<close>

definition emptyWorld :: world where
  "emptyWorld = \<lparr>requests = [], queries = [], sleeps = []\<rparr>"

definition limitedAfterOneFailure :: network where
  "limitedAfterOneFailure n url = (if n = 0 then NetworkError else Response \<lparr>status = 429, body = None\<rparr>)"

definition alwaysLimited :: network where
  "alwaysLimited n url = Response \<lparr>status = 429, body = None\<rparr>"

definition helloAdele :: songSuggestion where
  "helloAdele = \<lparr>title = str ''Hello'', artist = str ''Adele'', moodDescription = str ''calma''\<rparr>"






definition playableTrack :: "string \<Rightarrow> string \<Rightarrow> track" where
  "playableTrack t a =
     \<lparr>title = str t, artist = str a, moodDescription = [], id' = 1,
      previewUrl = Some (str ''https://audio.example/preview.m4a''), coverUrl = stockCover,
      externalUrl = Some [], isPlayable = True\<rparr>"

definition levitating :: track where
  "levitating = playableTrack ''Levitating'' ''Dua Lipa''"

definition twoSkipsApp :: app where
  "twoSkipsApp =
     \<lparr>playlist = [playableTrack ''Blinding Lights'' ''The Weeknd'', playableTrack ''Levitating'' ''Dua Lipa''],
      currentIndex = 0, consecutiveSkips = 2, moodSummary = str ''calma'', notification = None,
      isGenerating = False, aiCalls = [], backfills = []\<rparr>"

definition lockedApp :: app where
  "lockedApp = twoSkipsApp\<lparr>isGenerating := True\<rparr>"

definition someKey :: "jsstring option" where
  "someKey = Some (str ''key'')"

definition blindingLower :: songSuggestion where
  "blindingLower = \<lparr>title = str ''blinding lights'', artist = str ''The Weeknd'', moodDescription = []\<rparr>"

definition saveYourTears :: songSuggestion where
  "saveYourTears = \<lparr>title = str ''Save Your Tears'', artist = str ''The Weeknd'', moodDescription = []\<rparr>"

definition zeroClock :: "nat \<Rightarrow> int" where
  "zeroClock idx = 0"


section \<open>Properties of the string normalizer\<close>



















lemma includes_str_iff: "includes_str s sub \<longleftrightarrow> (\<exists>t. suffix t s \<and> prefix sub t)"
proof (induction s)
  case Nil then show ?case by auto
next
  case (Cons c cs)
  show ?case
  proof
    assume "includes_str (c # cs) sub"
    then show "\<exists>t. suffix t (c # cs) \<and> prefix sub t"
      using Cons by (auto simp: suffix_Cons)
  next
    assume "\<exists>t. suffix t (c # cs) \<and> prefix sub t"
    then obtain t where t: "suffix t (c # cs)" "prefix sub t" by blast
    then show "includes_str (c # cs) sub" using Cons by (auto simp: suffix_Cons)
  qed
qed

lemma includes_str_sublist: "includes_str s sub \<longleftrightarrow> sublist sub s"
  unfolding includes_str_iff sublist_def prefix_def suffix_def by (metis append.assoc)







section \<open>Properties of the resilient fetch\<close>

declare fetchLoop.simps [simp del]

lemma attempt_rate_limited:
  "status r = 403 \<or> status r = 429 \<Longrightarrow> attempt parse (Response r) = Returns JNull"
  by (auto simp: attempt_def)

lemma fetchLoop_rate_limited:
  assumes "i + int j \<le> retries"
    and "\<And>k. k < j \<Longrightarrow> attempt parse (net (length (requests w) + k) url) = Throws"
    and "net (length (requests w) + j) url = Response r"
    and "status r = 403 \<or> status r = 429"
  shows "fetchLoop net parse url retries delay i w =
           (Returns (Value JNull),
            w\<lparr>requests := requests w @ replicate (Suc j) url,
              sleeps := sleeps w @ map (\<lambda>k. delay * (i + int k + 1)) [0..<j]\<rparr>)"
  using assms
proof (induction j arbitrary: i w)
  case 0
  then show ?case
    by (subst fetchLoop.simps) (simp add: attempt_rate_limited Let_def)
next
  case (Suc j)
  let ?w = "w\<lparr>requests := requests w @ [url], sleeps := sleeps w @ [delay * (i + 1)]\<rparr>"
  have first: "attempt parse (net (length (requests w)) url) = Throws"
    using Suc.prems(2)[of 0] by simp
  have bound: "i \<le> retries" "i \<noteq> retries" "i + 1 + int j \<le> retries"
    using Suc.prems(1) by simp_all
  have "fetchLoop net parse url retries delay (i + 1) ?w =
          (Returns (Value JNull),
           ?w\<lparr>requests := requests ?w @ replicate (Suc j) url,
              sleeps := sleeps ?w @ map (\<lambda>k. delay * (i + 1 + int k + 1)) [0..<j]\<rparr>)"
  proof (rule Suc.IH[OF bound(3)])
    fix k assume "k < j"
    then show "attempt parse (net (length (requests ?w) + k) url) = Throws"
      using Suc.prems(2)[of "Suc k"] by simp
  next
    show "net (length (requests ?w) + j) url = Response r" using Suc.prems(3) by simp
  next
    show "status r = 403 \<or> status r = 429" by (rule Suc.prems(4))
  qed
  moreover have "map (\<lambda>k. delay * (i + int k + 1)) [0..<Suc j] =
      delay * (i + 1) # map (\<lambda>k. delay * (i + 1 + int k + 1)) [0..<j]"
    by (simp only: map_upt_Suc) (simp add: algebra_simps)
  moreover have "replicate (Suc (Suc j)) url = url # replicate (Suc j) url" by simp
  ultimately show ?case
    using first bound(1,2)
    by (subst fetchLoop.simps) (simp add: Let_def del: replicate.simps upt_Suc)
qed

lemma fetchLoop_queries:
  "queries (snd (fetchLoop net parse url retries delay i w)) = queries w"
proof (induction net parse url retries delay i w rule: fetchLoop.induct)
  case (1 net parse url retries delay i w)
  show ?case
  proof (cases "i \<le> retries")
    case False
    then show ?thesis by (subst fetchLoop.simps) simp
  next
    case True
    show ?thesis
    proof (cases "attempt parse (net (length (requests w)) url)")
      case (Returns v)
      with True show ?thesis by (subst fetchLoop.simps) (simp add: Let_def)
    next
      case Throws
      show ?thesis
      proof (cases "i = retries")
        case True
        with Throws show ?thesis by (subst fetchLoop.simps) (simp add: Let_def)
      next
        case False
        with True Throws "1.IH"[OF True refl Throws False] show ?thesis
          by (subst fetchLoop.simps) (simp add: Let_def)
      qed
    qed
  qed
qed

lemma fetchWithRetry_queries:
  "fetchWithRetry net parse url retries delay w = (r, w') \<Longrightarrow> queries w' = queries w @ [url]"
  using fetchLoop_queries[of net parse url retries delay 0 "w\<lparr>queries := queries w @ [url]\<rparr>"]
  by (simp add: fetchWithRetry_def)

text \<open>
  C6: whatever the address and the retry budget, when the attempts before the \<open>j\<close>-th
  fail and the \<open>j\<close>-th one (within the budget) receives status 403 or 429, the call
  returns \<open>null\<close> at once: exactly \<open>j + 1\<close> requests have been sent, and no further one.
\<close>

theorem fetchWithRetry_rate_limit_no_retry:
  assumes "int j \<le> retries"
    and "\<forall>k<j. attempt parse (net (length (requests w) + k) url) = Throws"
    and "net (length (requests w) + j) url = Response r"
    and "status r = 403 \<or> status r = 429"
  shows "fetchWithRetry net parse url retries delay w =
           (Returns (Value JNull),
            w\<lparr>queries := queries w @ [url],
              requests := requests w @ replicate (Suc j) url,
              sleeps := sleeps w @ map (\<lambda>k. delay * (int k + 1)) [0..<j]\<rparr>)"
proof -
  let ?w = "w\<lparr>queries := queries w @ [url]\<rparr>"
  have "fetchLoop net parse url retries delay 0 ?w =
          (Returns (Value JNull),
           ?w\<lparr>requests := requests ?w @ replicate (Suc j) url,
              sleeps := sleeps ?w @ map (\<lambda>k. delay * (0 + int k + 1)) [0..<j]\<rparr>)"
    using assms by (intro fetchLoop_rate_limited) simp_all
  then show ?thesis by (simp add: fetchWithRetry_def)
qed

text \<open>
  An instance: a network error, then status 429, with two retries allowed. The third
  attempt is never made.
\<close>

theorem fetchWithRetry_rate_limit_no_retry_witness:
  "fetchWithRetry limitedAfterOneFailure (\<lambda>t. None) (str ''u'') 2 500 emptyWorld =
     (Returns (Value JNull),
      \<lparr>requests = [str ''u'', str ''u''], queries = [str ''u''], sleeps = [500]\<rparr>)"
proof -
  have a: "\<forall>k<1. attempt (\<lambda>t. None) (limitedAfterOneFailure (length (requests emptyWorld) + k) (str ''u'')) = Throws"
    by (simp add: limitedAfterOneFailure_def emptyWorld_def attempt_def)
  have b: "limitedAfterOneFailure (length (requests emptyWorld) + 1) (str ''u'') = Response \<lparr>status = 429, body = None\<rparr>"
    by (simp add: limitedAfterOneFailure_def emptyWorld_def)
  show ?thesis
    using fetchWithRetry_rate_limit_no_retry[of 1 2 "\<lambda>t. None" limitedAfterOneFailure emptyWorld "str ''u''" "\<lparr>status = 429, body = None\<rparr>" 500, OF _ a b]
    by (simp add: emptyWorld_def)
qed

section \<open>Properties of the track resolver\<close>

lemma helloAdele_query:
  "encodeURIComponent (cleanString (title helloAdele) @ str '' '' @ cleanString (artist helloAdele)) = Some (str ''Hello%20Adele'')"
  by code_simp

lemma cleanString_lone_surrogate: "cleanString [0xD800] = [0xD800]"
  by code_simp

lemma cleanString_empty: "cleanString [] = []"
  by code_simp

lemma encode_lone_surrogate: "encodeURIComponent ([0xD800] @ str '' '') = None"
  by code_simp

lemma buildTrack_playable:
  "isPlayable (buildTrack suggestion index data) \<longleftrightarrow> truthyStr (previewUrl (buildTrack suggestion index data))"
  by (auto simp: buildTrack_def fallbackTrack_def resolvedTrack_def truthyStr_def split: list.splits)

lemma fallbackTrack_playable:
  "isPlayable (fallbackTrack suggestion index) \<longleftrightarrow> truthyStr (previewUrl (fallbackTrack suggestion index))"
  by (simp add: fallbackTrack_def truthyStr_def)

text \<open>
  The resolver raises exactly when the search term cannot be encoded; in every other
  case it returns a track whose \<open>isPlayable\<close> says whether the preview address is a
  non-empty string.
\<close>

lemma fetchTrackDetails_throws_iff:
  "fst (fetchTrackDetails net parse suggestion index w) = Throws \<longleftrightarrow>
     encodeURIComponent (cleanString (title suggestion) @ str '' '' @ cleanString (artist suggestion)) = None"
  by (auto simp: fetchTrackDetails_def Let_def split: option.splits prod.splits completion.splits)

lemma fetchTrackDetails_returns_if_encodable:
  assumes "encodeURIComponent (cleanString (title suggestion) @ str '' '' @ cleanString (artist suggestion)) \<noteq> None"
  shows "\<exists>t w'. fetchTrackDetails net parse suggestion index w = (Returns t, w')
           \<and> (isPlayable t \<longleftrightarrow> truthyStr (previewUrl t))"
  using assms
  by (auto simp: fetchTrackDetails_def Let_def buildTrack_playable fallbackTrack_playable
           split: option.splits prod.splits completion.splits)

text \<open>
  C1 (the resolver never throws past its boundary) fails on the code at a suggestion
  whose title is an unpaired surrogate: the search term is encoded before the \<open>try\<close>
  block is entered, and the \<open>URIError\<close> of that call leaves the function, for every
  network, parser, index and state of the world.
\<close>

theorem fetchTrackDetails_throws_on_lone_surrogate:
  "fetchTrackDetails net parse \<lparr>title = [0xD800], artist = [], moodDescription = []\<rparr> index w = (Throws, w)"
  by (simp add: fetchTrackDetails_def Let_def cleanString_lone_surrogate cleanString_empty
        encode_lone_surrogate del: append.simps)

text \<open>
  C5: when the term can be encoded and the primary search returns \<open>null\<close>, the
  resolver returns the fallback track in the state the primary search left, and the
  primary address is the only one \<open>fetchWithRetry\<close> was called with.
\<close>

theorem fetchTrackDetails_rate_limit_short_circuit:
  assumes "encodeURIComponent (cleanString (title suggestion) @ str '' '' @ cleanString (artist suggestion)) = Some query"
    and "fetchWithRetry net parse (searchUrl query ''1'') 2 500 w = (Returns (Value JNull), w1)"
  shows "fetchTrackDetails net parse suggestion index w = (Returns (fallbackTrack suggestion index), w1)
         \<and> queries w1 = queries w @ [searchUrl query ''1'']"
  using assms fetchWithRetry_queries[OF assms(2)]
  by (simp add: fetchTrackDetails_def Let_def)

text \<open>
  An instance: a catalog that answers every request with status 429.
\<close>

theorem fetchTrackDetails_rate_limit_short_circuit_witness:
  "fst (fetchTrackDetails alwaysLimited (\<lambda>t. None) helloAdele 0 emptyWorld) = Returns (fallbackTrack helloAdele 0)
   \<and> queries (snd (fetchTrackDetails alwaysLimited (\<lambda>t. None) helloAdele 0 emptyWorld)) = [searchUrl (str ''Hello%20Adele'') ''1'']"
proof -
  have "fetchLoop alwaysLimited (\<lambda>t. None) (searchUrl (str ''Hello%20Adele'') ''1'') 2 500 0
           (emptyWorld\<lparr>queries := queries emptyWorld @ [searchUrl (str ''Hello%20Adele'') ''1'']\<rparr>) =
     (Returns (Value JNull),
      emptyWorld\<lparr>queries := queries emptyWorld @ [searchUrl (str ''Hello%20Adele'') ''1''],
         requests := requests emptyWorld @ [searchUrl (str ''Hello%20Adele'') ''1'']\<rparr>)"
    by (subst fetchLoop.simps) (simp add: alwaysLimited_def attempt_def Let_def)
  then have "fetchWithRetry alwaysLimited (\<lambda>t. None) (searchUrl (str ''Hello%20Adele'') ''1'') 2 500 emptyWorld =
     (Returns (Value JNull),
      emptyWorld\<lparr>queries := queries emptyWorld @ [searchUrl (str ''Hello%20Adele'') ''1''],
         requests := requests emptyWorld @ [searchUrl (str ''Hello%20Adele'') ''1'']\<rparr>)"
    by (simp add: fetchWithRetry_def)
  from fetchTrackDetails_rate_limit_short_circuit[OF helloAdele_query this, of 0]
  show ?thesis by (simp add: emptyWorld_def)
qed





lemma find_Some_holds: "find P xs = Some x \<Longrightarrow> P x \<and> x \<in> set xs"
  by (induction xs) (auto split: if_splits)






section \<open>Properties of the engagement policy\<close>

lemma slow_listen:
  assumes "currentIndex st < length (playlist st)" "isPlayable (playlist st ! currentIndex st)" "8 \<le> d"
  shows "trackAdvanced apiKey d st = Some (advanceCursor (playlist st) (st\<lparr>consecutiveSkips := 0\<rparr>), None)"
  using assms by (simp add: trackAdvanced_def handleNext_def Let_def)

lemma fast_skip_below:
  assumes "currentIndex st < length (playlist st)" "isPlayable (playlist st ! currentIndex st)" "d < 8"
    and "consecutiveSkips st + 1 < 3"
  shows "trackAdvanced apiKey d st =
           Some (advanceCursor (playlist st) (st\<lparr>consecutiveSkips := consecutiveSkips st + 1\<rparr>), None)"
  using assms by (simp add: trackAdvanced_def handleNext_def Let_def)

lemma fast_skip_pivot:
  assumes "currentIndex st < length (playlist st)" "isPlayable (playlist st ! currentIndex st)" "d < 8"
    and "3 \<le> consecutiveSkips st + 1" "\<not> isGenerating st" "hasApiKey apiKey"
  shows "trackAdvanced apiKey d st =
           Some (st\<lparr>consecutiveSkips := 0, isGenerating := True, notification := Some NoticePivot,
                    aiCalls := aiCalls st @ [PivotRequest (moodSummary st) (skippedContext st)
                                              (lastFifty (map title (playlist st)))]\<rparr>,
                 Some (Flow (playlist st) True))"
  using assms
  by (simp add: trackAdvanced_def handleNext_def handlePivot_def getPivotSongs_request_def Let_def)

lemma advanceCursor_simps:
  "playlist (advanceCursor p st) = playlist st"
  "consecutiveSkips (advanceCursor p st) = consecutiveSkips st"
  "isGenerating (advanceCursor p st) = isGenerating st"
  "aiCalls (advanceCursor p st) = aiCalls st"
  "moodSummary (advanceCursor p st) = moodSummary st"
  "backfills (advanceCursor p st) = backfills st"
  "notification (advanceCursor p st) = notification st"
  "p \<noteq> [] \<Longrightarrow> currentIndex (advanceCursor p st) < length p"
  by (simp_all add: advanceCursor_def)

text \<open>
  C3 as stated (after the reset two more fast skips trigger the next pivot) fails: from
  a counter of 2, a listen of 9 seconds and two fast skips leave the counter at 2, with
  no request sent and the lock free.
\<close>

theorem skip_counter_reset_two_skips_no_pivot:
  "consecutiveSkips twoSkipsApp = 2
   \<and> map_option consecutiveSkips (trackAdvancedAll someKey [9, 1, 1] twoSkipsApp) = Some 2
   \<and> map_option aiCalls (trackAdvancedAll someKey [9, 1, 1] twoSkipsApp) = Some []
   \<and> map_option isGenerating (trackAdvancedAll someKey [9, 1, 1] twoSkipsApp) = Some False"
  by (simp add: twoSkipsApp_def someKey_def trackAdvanced_def handleNext_def Let_def
        advanceCursor_def playableTrack_def)

text \<open>
  C3, amended: on a playlist of playable tracks with the lock free, a \<open>TrackAdvanced\<close>
  event with a duration of at least 8 seconds resets the counter to 0, whatever it was:
  two fast skips after it bring the counter to 2 without a pivot, and only the third
  one sends the pivot request, takes the lock and resets the counter.
\<close>

theorem skip_counter_reset_requires_three:
  assumes "playlist st \<noteq> []" "currentIndex st < length (playlist st)"
    and "\<forall>t \<in> set (playlist st). isPlayable t"
    and "\<not> isGenerating st" "hasApiKey apiKey"
    and "8 \<le> d0" "d1 < 8" "d2 < 8" "d3 < 8"
  shows "\<exists>s3. trackAdvancedAll apiKey [d0, d1, d2] st = Some s3
           \<and> consecutiveSkips s3 = 2 \<and> aiCalls s3 = aiCalls st \<and> \<not> isGenerating s3
           \<and> playlist s3 = playlist st
           \<and> (\<exists>s4 fl. trackAdvanced apiKey d3 s3 = Some (s4, Some fl)
                 \<and> aiCalls s4 = aiCalls st @ [PivotRequest (moodSummary st) (skippedContext s3)
                                                  (lastFifty (map title (playlist st)))]
                 \<and> isGenerating s4 \<and> consecutiveSkips s4 = 0)"
proof -
  let ?p = "playlist st"
  have play: "\<And>s. playlist s = ?p \<Longrightarrow> currentIndex s < length ?p \<Longrightarrow> isPlayable (playlist s ! currentIndex s)"
    using assms(3) by simp
  define s0 where "s0 = advanceCursor ?p (st\<lparr>consecutiveSkips := 0\<rparr>)"
  define s1 where "s1 = advanceCursor ?p (s0\<lparr>consecutiveSkips := consecutiveSkips s0 + 1\<rparr>)"
  define s2 where "s2 = advanceCursor ?p (s1\<lparr>consecutiveSkips := consecutiveSkips s1 + 1\<rparr>)"
  have p0: "playlist s0 = ?p" "currentIndex s0 < length ?p" "consecutiveSkips s0 = 0"
     "\<not> isGenerating s0" "aiCalls s0 = aiCalls st" "moodSummary s0 = moodSummary st"
    using assms(1,4) by (simp_all add: s0_def advanceCursor_simps)
  have p1: "playlist s1 = ?p" "currentIndex s1 < length ?p" "consecutiveSkips s1 = 1"
     "\<not> isGenerating s1" "aiCalls s1 = aiCalls st" "moodSummary s1 = moodSummary st"
    using assms(1) p0 by (simp_all add: s1_def advanceCursor_simps)
  have p2: "playlist s2 = ?p" "currentIndex s2 < length ?p" "consecutiveSkips s2 = 2"
     "\<not> isGenerating s2" "aiCalls s2 = aiCalls st" "moodSummary s2 = moodSummary st"
    using assms(1) p1 by (simp_all add: s2_def advanceCursor_simps)
  have e0: "trackAdvanced apiKey d0 st = Some (s0, None)"
    unfolding s0_def using assms(2) play[OF refl assms(2)] assms(6) by (rule slow_listen)
  have e1: "trackAdvanced apiKey d1 s0 = Some (s1, None)"
    using fast_skip_below[of s0 d1 apiKey] p0 play[of s0] assms(7) by (simp add: s1_def)
  have e2: "trackAdvanced apiKey d2 s1 = Some (s2, None)"
    using fast_skip_below[of s1 d2 apiKey] p1 play[of s1] assms(8) by (simp add: s2_def)
  have e3: "trackAdvanced apiKey d3 s2 =
           Some (s2\<lparr>consecutiveSkips := 0, isGenerating := True, notification := Some NoticePivot,
                    aiCalls := aiCalls s2 @ [PivotRequest (moodSummary s2) (skippedContext s2)
                                              (lastFifty (map title (playlist s2)))]\<rparr>,
                 Some (Flow (playlist s2) True))"
    using fast_skip_pivot[of s2 d3 apiKey] p2 play[of s2] assms(9,5) by simp
  have "trackAdvancedAll apiKey [d0, d1, d2] st = Some s2"
    by (simp add: e0 e1 e2)
  then show ?thesis using p2 e3 by simp
qed

text \<open>
  An instance: the state with a counter of 2 used above.
\<close>

theorem skip_counter_reset_requires_three_witness:
  "\<exists>s3. trackAdvancedAll someKey [9, 1, 1] twoSkipsApp = Some s3 \<and> consecutiveSkips s3 = 2
     \<and> aiCalls s3 = [] \<and> (\<exists>s4 fl. trackAdvanced someKey 1 s3 = Some (s4, Some fl) \<and> length (aiCalls s4) = 1)"
proof -
  have "\<exists>s3. trackAdvancedAll someKey [9, 1, 1] twoSkipsApp = Some s3
           \<and> consecutiveSkips s3 = 2 \<and> aiCalls s3 = aiCalls twoSkipsApp \<and> \<not> isGenerating s3
           \<and> playlist s3 = playlist twoSkipsApp
           \<and> (\<exists>s4 fl. trackAdvanced someKey 1 s3 = Some (s4, Some fl)
                 \<and> aiCalls s4 = aiCalls twoSkipsApp @ [PivotRequest (moodSummary twoSkipsApp) (skippedContext s3)
                                                  (lastFifty (map title (playlist twoSkipsApp)))]
                 \<and> isGenerating s4 \<and> consecutiveSkips s4 = 0)"
    by (rule skip_counter_reset_requires_three)
       (simp_all add: twoSkipsApp_def someKey_def playableTrack_def hasApiKey_def truthyStr_def str_def)
  then show ?thesis by (auto simp: twoSkipsApp_def)
qed

lemma handleLike_locked: "isGenerating st \<Longrightarrow> handleLike apiKey view liked st = (st, None)"
  by (simp add: handleLike_def)

lemma handlePivot_locked: "isGenerating st \<Longrightarrow> handlePivot apiKey view t st = (st, None)"
  by (simp add: handlePivot_def)

lemma handleNext_locked:
  assumes "isGenerating st" "handleNext apiKey view d st = Some (st', fl)"
  shows "fl = None \<and> isGenerating st' \<and> aiCalls st' = aiCalls st \<and> playlist st' = playlist st
         \<and> backfills st' = backfills st"
  using assms
  by (auto simp: handleNext_def Let_def advanceCursor_def split: if_splits)

lemma resume_unlocks: "\<not> isGenerating (resume parseSongs clock fl reply st)"
  by (cases fl) (simp add: resume_def Let_def advanceCursor_def)

lemma resume_aiCalls: "aiCalls (resume parseSongs clock fl reply st) = aiCalls st"
  by (cases fl) (simp add: resume_def Let_def advanceCursor_def addSongsToPlaylist_def)

lemma handleNext_defined:
  "currentIndex view < length (playlist view) \<Longrightarrow> \<exists>st' fl. handleNext apiKey view d st = Some (st', fl)"
  by (simp add: handleNext_def Let_def split: prod.splits option.splits flow.splits)

text \<open>
  C8: while the lock is held, \<open>handleLike\<close> and \<open>handlePivot\<close> return the state
  unchanged and start no flow, and \<open>handleNext\<close> (also on a third fast skip) sends no
  request, starts no flow and leaves the lock as it is. With the lock free and a key
  set, either flow takes the lock on entry and sends one request; without a key the
  flow fails at once and leaves the lock free. The rest of a flow releases the lock,
  whatever the reply, and sends no request.
\<close>

theorem generation_lock_single_flight:
  "(isGenerating st \<longrightarrow>
      handleLike apiKey view liked st = (st, None) \<and>
      handlePivot apiKey view lastSkipped st = (st, None) \<and>
      (\<forall>st' fl. handleNext apiKey view d st = Some (st', fl) \<longrightarrow>
         fl = None \<and> isGenerating st' \<and> aiCalls st' = aiCalls st \<and> playlist st' = playlist st))
   \<and> (\<not> isGenerating st \<and> hasApiKey apiKey \<longrightarrow>
        (\<exists>st' request.
           handleLike apiKey view liked st = (st', Some (Flow (playlist view) False)) \<and>
           isGenerating st' \<and> aiCalls st' = aiCalls st @ [request]) \<and>
        (\<exists>st' request.
           handlePivot apiKey view lastSkipped st = (st', Some (Flow (playlist view) False)) \<and>
           isGenerating st' \<and> aiCalls st' = aiCalls st @ [request]))
   \<and> (\<not> isGenerating st \<and> \<not> hasApiKey apiKey \<longrightarrow>
        \<not> isGenerating (fst (handleLike apiKey view liked st)) \<and>
        snd (handleLike apiKey view liked st) = None \<and>
        aiCalls (fst (handleLike apiKey view liked st)) = aiCalls st \<and>
        \<not> isGenerating (fst (handlePivot apiKey view lastSkipped st)) \<and>
        snd (handlePivot apiKey view lastSkipped st) = None \<and>
        aiCalls (fst (handlePivot apiKey view lastSkipped st)) = aiCalls st)
   \<and> \<not> isGenerating (resume parseSongs clock pending reply st)
   \<and> aiCalls (resume parseSongs clock pending reply st) = aiCalls st"
proof -
  have locked: "isGenerating st \<longrightarrow>
      handleLike apiKey view liked st = (st, None) \<and>
      handlePivot apiKey view lastSkipped st = (st, None) \<and>
      (\<forall>st' fl. handleNext apiKey view d st = Some (st', fl) \<longrightarrow>
         fl = None \<and> isGenerating st' \<and> aiCalls st' = aiCalls st \<and> playlist st' = playlist st)"
    using handleLike_locked handlePivot_locked handleNext_locked by blast
  have entry: "\<not> isGenerating st \<and> hasApiKey apiKey \<longrightarrow>
        (\<exists>st' request.
           handleLike apiKey view liked st = (st', Some (Flow (playlist view) False)) \<and>
           isGenerating st' \<and> aiCalls st' = aiCalls st @ [request]) \<and>
        (\<exists>st' request.
           handlePivot apiKey view lastSkipped st = (st', Some (Flow (playlist view) False)) \<and>
           isGenerating st' \<and> aiCalls st' = aiCalls st @ [request])"
    by (simp add: handleLike_def getRefinedSongs_request_def handlePivot_def
          getPivotSongs_request_def Let_def)
  have nokey: "\<not> isGenerating st \<and> \<not> hasApiKey apiKey \<longrightarrow>
        \<not> isGenerating (fst (handleLike apiKey view liked st)) \<and>
        snd (handleLike apiKey view liked st) = None \<and>
        aiCalls (fst (handleLike apiKey view liked st)) = aiCalls st \<and>
        \<not> isGenerating (fst (handlePivot apiKey view lastSkipped st)) \<and>
        snd (handlePivot apiKey view lastSkipped st) = None \<and>
        aiCalls (fst (handlePivot apiKey view lastSkipped st)) = aiCalls st"
    by (simp add: handleLike_def getRefinedSongs_request_def handlePivot_def
          getPivotSongs_request_def Let_def)
  show ?thesis
    using locked entry nokey resume_unlocks[of parseSongs clock pending reply st]
      resume_aiCalls[of parseSongs clock pending reply st]
    by (intro conjI)
qed

text \<open>
  Instances: a like and a third fast skip while the lock is held, a like with the lock
  free, and a like without a key.
\<close>

theorem generation_lock_single_flight_witness:
  "trackLiked someKey levitating lockedApp = (lockedApp, None)
   \<and> map_option snd (trackAdvanced someKey 1 lockedApp) = Some None
   \<and> map_option (aiCalls \<circ> fst) (trackAdvanced someKey 1 lockedApp) = Some []
   \<and> isGenerating (fst (trackLiked someKey levitating twoSkipsApp))
   \<and> length (aiCalls (fst (trackLiked someKey levitating twoSkipsApp))) = 1
   \<and> \<not> isGenerating (fst (trackLiked None levitating twoSkipsApp))
   \<and> aiCalls (fst (trackLiked None levitating twoSkipsApp)) = []"
proof -
  have l: "isGenerating lockedApp" by (simp add: lockedApp_def)
  have u: "\<not> isGenerating twoSkipsApp" by (simp add: twoSkipsApp_def)
  have k: "hasApiKey someKey" "\<not> hasApiKey None"
    by (simp_all add: someKey_def hasApiKey_def truthyStr_def str_def)
  have c: "aiCalls lockedApp = []" "aiCalls twoSkipsApp = []"
    by (simp_all add: lockedApp_def twoSkipsApp_def)
  have "currentIndex lockedApp < length (playlist lockedApp)"
    by (simp add: lockedApp_def twoSkipsApp_def)
  then obtain s' f' where n: "trackAdvanced someKey 1 lockedApp = Some (s', f')"
    unfolding trackAdvanced_def using handleNext_defined by blast
  note a = generation_lock_single_flight[of lockedApp someKey lockedApp levitating "[]" 1
      "\<lambda>t. None" zeroClock "Flow [] False" AiRejected, THEN conjunct1, rule_format, OF l]
  note b = generation_lock_single_flight[of twoSkipsApp someKey twoSkipsApp levitating "[]" 1
      "\<lambda>t. None" zeroClock "Flow [] False" AiRejected, THEN conjunct2, THEN conjunct1, rule_format, OF conjI[OF u k(1)]]
  note d = generation_lock_single_flight[of twoSkipsApp None twoSkipsApp levitating "[]" 1
      "\<lambda>t. None" zeroClock "Flow [] False" AiRejected, THEN conjunct2, THEN conjunct2, THEN conjunct1, rule_format, OF conjI[OF u k(2)]]
  from a have a1: "handleLike someKey lockedApp levitating lockedApp = (lockedApp, None)" by blast
  from a n have a2: "f' = None \<and> aiCalls s' = []"
    unfolding trackAdvanced_def using c by auto
  from b have b1: "isGenerating (fst (handleLike someKey twoSkipsApp levitating twoSkipsApp))"
    "length (aiCalls (fst (handleLike someKey twoSkipsApp levitating twoSkipsApp))) = 1"
    using c by auto
  from d have d1: "\<not> isGenerating (fst (handleLike None twoSkipsApp levitating twoSkipsApp))"
    "aiCalls (fst (handleLike None twoSkipsApp levitating twoSkipsApp)) = []"
    using c by auto
  show ?thesis using a1 a2 n b1 d1 by (simp add: trackLiked_def)
qed

section \<open>Properties of the playlist\<close>

lemma isDuplicate_iff:
  "isDuplicate existing s \<longleftrightarrow>
     (\<exists>t \<in> set existing.
        trim (toLowerCase (title t)) = trim (toLowerCase (title s)) \<or>
        (sublist (toLowerCase (title s)) (toLowerCase (title t)) \<and>
         sublist (toLowerCase (artist s)) (toLowerCase (artist t))))"
  by (simp add: isDuplicate_def list_ex_iff sameSong_def includes_str_sublist)

lemma addSongsToPlaylist_playlist:
  "playlist (addSongsToPlaylist clock captured newSongs st) =
     playlist st @
     map (\<lambda>(idx, song). placeholderTrack song (int (length captured + idx) + clock idx))
       (enumerate 0 (filter (\<lambda>s. \<not> isDuplicate captured s) newSongs))"
  by (simp add: addSongsToPlaylist_def Let_def)

lemma map_title_placeholders:
  "map title (map (\<lambda>(idx, song). placeholderTrack song (f idx)) (enumerate n xs)) = map title xs"
  by (induction xs arbitrary: n) (simp_all add: placeholderTrack_def)

lemma lower_blinding: "toLowerCase (str ''Blinding Lights'') = str ''blinding lights''" by code_simp

lemma lower_blinding': "toLowerCase (str ''blinding lights'') = str ''blinding lights''" by code_simp

lemma lower_levitating: "toLowerCase (str ''Levitating'') = str ''levitating''" by code_simp

lemma lower_save: "toLowerCase (str ''Save Your Tears'') = str ''save your tears''" by code_simp

lemma trim_save: "trim (str ''save your tears'') = str ''save your tears''" by code_simp

lemma trim_blinding: "trim (str ''blinding lights'') = str ''blinding lights''" by code_simp

lemma trim_levitating: "trim (str ''levitating'') = str ''levitating''" by code_simp

lemma save_not_in_blinding: "\<not> includes_str (str ''blinding lights'') (str ''save your tears'')" by code_simp

lemma save_not_in_levitating: "\<not> includes_str (str ''levitating'') (str ''save your tears'')" by code_simp

lemma save_ne: "str ''blinding lights'' \<noteq> str ''save your tears''" "str ''levitating'' \<noteq> str ''save your tears''"
  by code_simp+

text \<open>
  C7: the playlist after \<open>addSongsToPlaylist\<close> is the playlist before, followed by one
  placeholder for each suggestion that is no duplicate, in order. A suggestion is a
  duplicate when some track of the playlist the handler holds has the same title after
  lower-casing and trimming, or has a title that contains the suggestion's title and an
  artist that contains the suggestion's artist, both lower-cased. In particular, with the
  titles "Blinding Lights" and "Levitating" in the playlist, the batch "blinding lights",
  "Save Your Tears" adds "Save Your Tears" only, whatever the artists.
\<close>

theorem addSongsToPlaylist_dedup:
  "playlist (addSongsToPlaylist clock captured newSongs st) =
     playlist st @
     map (\<lambda>(idx, song). placeholderTrack song (int (length captured + idx) + clock idx))
       (enumerate 0
         (filter (\<lambda>s. \<not> (\<exists>t \<in> set captured.
                    trim (toLowerCase (title t)) = trim (toLowerCase (title s)) \<or>
                    (sublist (toLowerCase (title s)) (toLowerCase (title t)) \<and>
                     sublist (toLowerCase (artist s)) (toLowerCase (artist t)))))
            newSongs))
   \<and> (title b = str ''Blinding Lights'' \<and> title l = str ''Levitating'' \<and>
      title s1 = str ''blinding lights'' \<and> title s2 = str ''Save Your Tears'' \<longrightarrow>
        map title (playlist (addSongsToPlaylist clock [b, l] [s1, s2] (st\<lparr>playlist := [b, l]\<rparr>)))
          = [str ''Blinding Lights'', str ''Levitating'', str ''Save Your Tears''])"
proof (intro conjI impI)
  show "playlist (addSongsToPlaylist clock captured newSongs st) =
     playlist st @
     map (\<lambda>(idx, song). placeholderTrack song (int (length captured + idx) + clock idx))
       (enumerate 0
         (filter (\<lambda>s. \<not> (\<exists>t \<in> set captured.
                    trim (toLowerCase (title t)) = trim (toLowerCase (title s)) \<or>
                    (sublist (toLowerCase (title s)) (toLowerCase (title t)) \<and>
                     sublist (toLowerCase (artist s)) (toLowerCase (artist t)))))
            newSongs))"
    by (simp only: addSongsToPlaylist_playlist isDuplicate_iff)
next
  assume a: "title b = str ''Blinding Lights'' \<and> title l = str ''Levitating'' \<and>
      title s1 = str ''blinding lights'' \<and> title s2 = str ''Save Your Tears''"
  have d1: "isDuplicate [b, l] s1"
    using a by (simp add: isDuplicate_def sameSong_def lower_blinding lower_blinding')
  have d2: "\<not> isDuplicate [b, l] s2"
    using a by (simp add: isDuplicate_def sameSong_def lower_blinding lower_levitating lower_save
        trim_save trim_blinding trim_levitating save_not_in_blinding save_not_in_levitating save_ne)
  have f: "filter (\<lambda>s. \<not> isDuplicate [b, l] s) [s1, s2] = [s2]" using d1 d2 by simp
  show "map title (playlist (addSongsToPlaylist clock [b, l] [s1, s2] (st\<lparr>playlist := [b, l]\<rparr>)))
          = [str ''Blinding Lights'', str ''Levitating'', str ''Save Your Tears'']"
    unfolding addSongsToPlaylist_playlist f using a by (simp add: placeholderTrack_def)
qed

text \<open>
  An instance with artists filled in.
\<close>

theorem addSongsToPlaylist_dedup_witness:
  "map title (playlist (addSongsToPlaylist zeroClock (playlist twoSkipsApp) [blindingLower, saveYourTears] twoSkipsApp))
     = [str ''Blinding Lights'', str ''Levitating'', str ''Save Your Tears'']"
proof -
  have t: "title (playableTrack ''Blinding Lights'' ''The Weeknd'') = str ''Blinding Lights'' \<and>
        title (playableTrack ''Levitating'' ''Dua Lipa'') = str ''Levitating'' \<and>
        title blindingLower = str ''blinding lights'' \<and> title saveYourTears = str ''Save Your Tears''"
    by (simp add: playableTrack_def blindingLower_def saveYourTears_def)
  have p: "playlist twoSkipsApp = [playableTrack ''Blinding Lights'' ''The Weeknd'', playableTrack ''Levitating'' ''Dua Lipa'']"
    "twoSkipsApp\<lparr>playlist := [playableTrack ''Blinding Lights'' ''The Weeknd'', playableTrack ''Levitating'' ''Dua Lipa'']\<rparr> = twoSkipsApp"
    by (simp_all add: twoSkipsApp_def)
  note ex = addSongsToPlaylist_dedup[of zeroClock "[]" "[]" twoSkipsApp
      "playableTrack ''Blinding Lights'' ''The Weeknd''" "playableTrack ''Levitating'' ''Dua Lipa''"
      blindingLower saveYourTears, THEN conjunct2, rule_format, OF t]
  then show ?thesis by (simp only: p)
qed

text \<open>
  C10: when every suggestion of the batch is a duplicate, \<open>addSongsToPlaylist\<close>
  returns the state it was given: the playlist, the notification and the list of
  started background passes are what they were.
\<close>

theorem addSongsToPlaylist_all_duplicates:
  assumes "\<forall>s \<in> set newSongs. isDuplicate captured s"
  shows "addSongsToPlaylist clock captured newSongs st = st"
proof -
  have "filter (\<lambda>s. \<not> isDuplicate captured s) newSongs = []"
    using assms by (simp add: filter_empty_conv)
  then show ?thesis by (simp add: addSongsToPlaylist_def)
qed

text \<open>
  An instance: a batch that only repeats a title of the playlist.
\<close>

theorem addSongsToPlaylist_all_duplicates_witness:
  "addSongsToPlaylist zeroClock (playlist twoSkipsApp) [blindingLower] twoSkipsApp = twoSkipsApp"
proof -
  have "isDuplicate (playlist twoSkipsApp) blindingLower" by code_simp
  then have "\<forall>s \<in> set [blindingLower]. isDuplicate (playlist twoSkipsApp) s" by simp
  then show ?thesis by (rule addSongsToPlaylist_all_duplicates)
qed









end
